theory Spec2Isabelle
  imports Complex_Main
begin

section \<open>Documents and the store\<close>

text \<open>
  A field of a stored document (a Python dict read back from the store) is absent, holds
  null (Python \<open>None\<close>), or holds a value. The same three cases describe a field of a
  partial update payload: not set by the caller, set to null, or set to a value.
\<close>

datatype 'a field = Absent | Null | Val 'a

text \<open>\<open>d.get(key, default)\<close>: the result \<open>None\<close> is Python's \<open>None\<close>.\<close>

fun dict_get :: "'a field \<Rightarrow> 'a \<Rightarrow> 'a option" where
  "dict_get Absent d = Some d"
| "dict_get Null d = None"
| "dict_get (Val v) d = Some v"

text \<open>\<open>d.get(key)\<close> where a missing key reads as \<open>None\<close>, written back as null.\<close>

fun dict_get_none :: "'a field \<Rightarrow> 'a field" where
  "dict_get_none Absent = Null"
| "dict_get_none Null = Null"
| "dict_get_none (Val v) = Val v"

text \<open>
  A product document of the collection \<open>product\<close> (schemas.py, \<open>Product\<close>, with the two
  timestamps the store manages). \<open>'f\<close> is the type of Python floats.
\<close>

record 'f Product =
  title :: "string field"
  description :: "string field"
  price :: "'f field"
  category :: "string field"
  stock :: "int field"
  image_url :: "string field"
  in_stock :: "bool field"
  created_at :: "nat field"
  updated_at :: "nat field"

text \<open>schemas.py, \<open>OrderItem\<close> and \<open>Order\<close>: validated models, every field holds a value.\<close>

record 'f OrderItem =
  item_product_id :: string
  item_title :: string
  item_price :: 'f
  item_quantity :: int
  item_subtotal :: 'f

record 'f Order =
  o_buyer_name :: "string option"
  o_buyer_email :: "string option"
  o_items :: "'f OrderItem list"
  o_total :: 'f
  o_status :: string

text \<open>main.py, the request models \<open>CartItem\<close>, \<open>CheckoutRequest\<close> and \<open>ProductUpdate\<close>.\<close>

record CartItem =
  product_id :: string
  quantity :: int

record CheckoutRequest =
  items :: "CartItem list"
  buyer_name :: "string option"
  buyer_email :: "string option"

record 'f ProductUpdate =
  upd_title :: "string field"
  upd_description :: "string field"
  upd_price :: "'f field"
  upd_category :: "string field"
  upd_stock :: "int field"
  upd_image_url :: "string field"
  upd_in_stock :: "bool field"

text \<open>
  The store \<open>db\<close>: the collection \<open>product\<close> keyed by \<open>_id\<close> (of type \<open>'k\<close>, bson's
  ObjectId), and the collection \<open>order\<close> as the sequence of inserted documents.
\<close>

record ('k, 'f) db =
  product_coll :: "'k \<rightharpoonup> 'f Product"
  order_coll :: "'f Order list"

text \<open>
  What the code takes from outside the repository: bson's \<open>ObjectId(s)\<close> (\<open>None\<close> when
  it raises), \<open>str\<close> of an ObjectId, and Python's float arithmetic: \<open>0.0\<close>, \<open>+\<close>,
  float times int (\<open>None\<close> when it raises \<open>OverflowError\<close>, the int being too large to
  convert to a float), \<open>round(x, 2)\<close> and the test \<open>x >= 0\<close> of the schemas' \<open>ge=0\<close>.
  Nothing is assumed of them.
\<close>

record ('k, 'f) env =
  ObjectId :: "string \<Rightarrow> 'k option"
  oid_str :: "'k \<Rightarrow> string"
  fzero :: 'f
  fadd :: "'f \<Rightarrow> 'f \<Rightarrow> 'f"
  fmul_int :: "'f \<Rightarrow> int \<Rightarrow> 'f option"
  round2 :: "'f \<Rightarrow> 'f"
  fge0 :: "'f \<Rightarrow> bool"

text \<open>
  Every way a request ends other than by returning: the \<open>HTTPException\<close>s the handlers
  raise (status code and detail), and the exceptions that escape them: pydantic's
  \<open>ValidationError\<close> from a model constructor, \<open>TypeError\<close>, \<open>AttributeError\<close>,
  \<open>OverflowError\<close>, bson's \<open>InvalidId\<close> and the store's \<open>WriteError\<close>.
\<close>

datatype error =
    HTTPException nat string
  | ValidationError
  | TypeError
  | AttributeError
  | OverflowError
  | InvalidId
  | WriteError

section \<open>Checkout\<close>

text \<open>An f-string's rendering of \<open>prod.get('title')\<close>.\<close>

fun fmt :: "string field \<Rightarrow> string" where
  "fmt (Val s) = s"
| "fmt Absent = ''None''"
| "fmt Null = ''None''"

text \<open>
  The constructor \<open>OrderItem(...)\<close>: \<open>title\<close> must be a string, \<open>price >= 0\<close>,
  \<open>quantity >= 1\<close>, \<open>subtotal >= 0\<close>; otherwise pydantic raises.
\<close>

definition new_OrderItem ::
  "('k, 'f) env \<Rightarrow> string \<Rightarrow> string field \<Rightarrow> 'f \<Rightarrow> int \<Rightarrow> 'f \<Rightarrow> error + 'f OrderItem" where
  "new_OrderItem env pid t p q sub =
     (case t of
        Val s \<Rightarrow>
          if fge0 env p \<and> 1 \<le> q \<and> fge0 env sub
          then Inr \<lparr>item_product_id = pid, item_title = s, item_price = p,
                    item_quantity = q, item_subtotal = sub\<rparr>
          else Inl ValidationError
      | _ \<Rightarrow> Inl ValidationError)"

text \<open>
  The constructor \<open>Order(...)\<close>: \<open>total >= 0\<close>; the items are validated \<open>OrderItem\<close>s
  already.
\<close>

definition new_Order ::
  "('k, 'f) env \<Rightarrow> string option \<Rightarrow> string option \<Rightarrow> 'f OrderItem list \<Rightarrow> 'f \<Rightarrow> string
     \<Rightarrow> error + 'f Order" where
  "new_Order env bn be its tot st =
     (if fge0 env tot
      then Inr \<lparr>o_buyer_name = bn, o_buyer_email = be, o_items = its,
                o_total = tot, o_status = st\<rparr>
      else Inl ValidationError)"

text \<open>
  The body of the first loop of \<open>checkout\<close> (main.py lines 67-85) for one cart line: the
  result is the line's subtotal and its \<open>OrderItem\<close>.
\<close>

definition checkout_line ::
  "('k, 'f) env \<Rightarrow> ('k \<rightharpoonup> 'f Product) \<Rightarrow> CartItem \<Rightarrow> error + ('f \<times> 'f OrderItem)" where
  "checkout_line env ps item =
     (case ObjectId env (product_id item) of
        None \<Rightarrow> Inl (HTTPException 400 (''Invalid product id: '' @ product_id item))
      | Some oid \<Rightarrow>
          (case ps oid of
             None \<Rightarrow> Inl (HTTPException 404 (''Product not found: '' @ product_id item))
           | Some prd \<Rightarrow>
               (case dict_get (stock prd) 0 of
                  None \<Rightarrow> Inl TypeError
                | Some st \<Rightarrow>
                    if st < quantity item
                    then Inl (HTTPException 400 (''Insufficient stock for '' @ fmt (title prd)))
                    else
                      (case dict_get (price prd) (fzero env) of
                         None \<Rightarrow> Inl TypeError
                       | Some pr \<Rightarrow>
                           (case fmul_int env pr (quantity item) of
                              None \<Rightarrow> Inl OverflowError
                            | Some subtotal \<Rightarrow>
                                (case new_OrderItem env (oid_str env oid) (title prd) pr
                                        (quantity item) subtotal of
                                   Inl e \<Rightarrow> Inl e
                                 | Inr oi \<Rightarrow> Inr (subtotal, oi)))))))"

text \<open>The first loop, with its two accumulators \<open>order_items\<close> and \<open>total\<close>.\<close>

fun checkout_validate ::
  "('k, 'f) env \<Rightarrow> ('k \<rightharpoonup> 'f Product) \<Rightarrow> CartItem list \<Rightarrow> 'f OrderItem list \<Rightarrow> 'f
     \<Rightarrow> error + ('f OrderItem list \<times> 'f)" where
  "checkout_validate env ps [] order_items tot = Inr (order_items, tot)"
| "checkout_validate env ps (item # rest) order_items tot =
     (case checkout_line env ps item of
        Inl e \<Rightarrow> Inl e
      | Inr (subtotal, oi) \<Rightarrow>
          checkout_validate env ps rest (order_items @ [oi]) (fadd env tot subtotal))"

text \<open>
  \<open>update_one({"_id": oid}, {"$inc": {"stock": -q}, "$set": {"in_stock": True}})\<close>: no
  matching document, nothing happens; \<open>$inc\<close> creates a missing field with the increment
  and is refused by the store on a null field.
\<close>

definition update_one_inc ::
  "'k \<Rightarrow> int \<Rightarrow> ('k \<rightharpoonup> 'f Product) \<Rightarrow> error + ('k \<rightharpoonup> 'f Product)" where
  "update_one_inc oid q ps =
     (case ps oid of
        None \<Rightarrow> Inr ps
      | Some prd \<Rightarrow>
          (case stock prd of
             Null \<Rightarrow> Inl WriteError
           | Absent \<Rightarrow> Inr (ps(oid \<mapsto> prd\<lparr>stock := Val (- q), in_stock := Val True\<rparr>))
           | Val s \<Rightarrow> Inr (ps(oid \<mapsto> prd\<lparr>stock := Val (s + - q), in_stock := Val True\<rparr>))))"

text \<open>
  The second loop (main.py lines 88-92). An exception leaves the updates already made in
  place: the result is the error, if any, and the collection as it then is.
\<close>

fun checkout_commit ::
  "('k, 'f) env \<Rightarrow> CartItem list \<Rightarrow> ('k \<rightharpoonup> 'f Product) \<Rightarrow> error option \<times> ('k \<rightharpoonup> 'f Product)" where
  "checkout_commit env [] ps = (None, ps)"
| "checkout_commit env (item # rest) ps =
     (case ObjectId env (product_id item) of
        None \<Rightarrow> (Some InvalidId, ps)
      | Some oid \<Rightarrow>
          (case update_one_inc oid (quantity item) ps of
             Inl e \<Rightarrow> (Some e, ps)
           | Inr ps' \<Rightarrow> checkout_commit env rest ps'))"

text \<open>
  Modelled from the spec: \<open>create_document\<close> of database.py, which is not among the
  sources. It inserts one document into a collection and returns the id the store gives
  it; here the id of an order is its position in the sequence of inserted orders.
\<close>

definition create_document :: "'d \<Rightarrow> 'd list \<Rightarrow> nat \<times> 'd list" where
  "create_document doc coll = (length coll, coll @ [doc])"

text \<open>
  \<open>checkout\<close> (main.py lines 60-103): the response \<open>{order_id, total}\<close> or the exception,
  and the store as the request leaves it.
\<close>

definition checkout ::
  "('k, 'f) env \<Rightarrow> CheckoutRequest \<Rightarrow> ('k, 'f) db \<Rightarrow> (error + (nat \<times> 'f)) \<times> ('k, 'f) db" where
  "checkout env payload s =
     (case checkout_validate env (product_coll s) (items payload) [] (fzero env) of
        Inl e \<Rightarrow> (Inl e, s)
      | Inr (order_items, tot) \<Rightarrow>
          (case checkout_commit env (items payload) (product_coll s) of
             (Some e, ps) \<Rightarrow> (Inl e, s\<lparr>product_coll := ps\<rparr>)
           | (None, ps) \<Rightarrow>
               (case new_Order env (buyer_name payload) (buyer_email payload) order_items
                       (round2 env tot) ''paid'' of
                  Inl e \<Rightarrow> (Inl e, s\<lparr>product_coll := ps\<rparr>)
                | Inr order \<Rightarrow>
                    (case create_document order (order_coll s) of
                       (order_id, oc) \<Rightarrow>
                         (Inr (order_id, o_total order),
                          s\<lparr>product_coll := ps, order_coll := oc\<rparr>)))))"

section \<open>Product administration\<close>

text \<open>\<open>payload.model_dump(exclude_unset=True)\<close> is empty: no field was set.\<close>

definition no_fields :: "'f ProductUpdate \<Rightarrow> bool" where
  "no_fields u \<longleftrightarrow>
     upd_title u = Absent \<and> upd_description u = Absent \<and> upd_price u = Absent \<and>
     upd_category u = Absent \<and> upd_stock u = Absent \<and> upd_image_url u = Absent \<and>
     upd_in_stock u = Absent"

text \<open>One entry of \<open>$set\<close>: a field that was set replaces the stored one.\<close>

fun set_field :: "'a field \<Rightarrow> 'a field \<Rightarrow> 'a field" where
  "set_field Absent old = old"
| "set_field new old = new"

text \<open>
  \<open>update_one({"_id": oid}, {"$set": update})\<close>, where \<open>update\<close> holds the fields that
  were set and \<open>updated_at\<close>: the matched count and the collection.
\<close>

definition update_one_set ::
  "'k \<Rightarrow> 'f ProductUpdate \<Rightarrow> nat field \<Rightarrow> ('k \<rightharpoonup> 'f Product) \<Rightarrow> nat \<times> ('k \<rightharpoonup> 'f Product)" where
  "update_one_set oid u upd_at ps =
     (case ps oid of
        None \<Rightarrow> (0, ps)
      | Some prd \<Rightarrow>
          (1, ps(oid \<mapsto> prd\<lparr>
                 title := set_field (upd_title u) (title prd),
                 description := set_field (upd_description u) (description prd),
                 price := set_field (upd_price u) (price prd),
                 category := set_field (upd_category u) (category prd),
                 stock := set_field (upd_stock u) (stock prd),
                 image_url := set_field (upd_image_url u) (image_url prd),
                 in_stock := set_field (upd_in_stock u) (in_stock prd),
                 updated_at := upd_at\<rparr>)))"

text \<open>
  \<open>update_product\<close> (main.py lines 124-137). Line 133 reads the stored document before
  the update: \<open>find_one\<close> returns \<open>None\<close> when there is none, and \<open>None.get\<close> raises
  \<open>AttributeError\<close>.
\<close>

definition update_product ::
  "('k, 'f) env \<Rightarrow> string \<Rightarrow> 'f ProductUpdate \<Rightarrow> ('k, 'f) db \<Rightarrow> (error + bool) \<times> ('k, 'f) db" where
  "update_product env pid payload s =
     (case ObjectId env pid of
        None \<Rightarrow> (Inl (HTTPException 400 ''Invalid product id''), s)
      | Some oid \<Rightarrow>
          if no_fields payload then (Inl (HTTPException 400 ''No fields to update''), s)
          else
            (case product_coll s oid of
               None \<Rightarrow> (Inl AttributeError, s)
             | Some found \<Rightarrow>
                 (case update_one_set oid payload (dict_get_none (updated_at found))
                         (product_coll s) of
                    (matched_count, ps) \<Rightarrow>
                      if matched_count = 0
                      then (Inl (HTTPException 404 ''Product not found''), s\<lparr>product_coll := ps\<rparr>)
                      else (Inr True, s\<lparr>product_coll := ps\<rparr>))))"

text \<open>
  Modelled from the spec: \<open>create_document\<close> on the collection \<open>product\<close> (database.py is
  not among the sources). The store generates the id \<open>new_id\<close> and assigns both
  timestamps.
\<close>

definition create_product ::
  "'k \<Rightarrow> nat \<Rightarrow> 'f Product \<Rightarrow> ('k, 'f) db \<Rightarrow> 'k \<times> ('k, 'f) db" where
  "create_product new_id now payload s =
     (new_id,
      s\<lparr>product_coll :=
           (product_coll s)(new_id \<mapsto> payload\<lparr>created_at := Val now, updated_at := Val now\<rparr>)\<rparr>)"

section \<open>The requests of the system\<close>

text \<open>
  The endpoints of main.py. \<open>list_products\<close>, \<open>list_orders\<close>, \<open>read_root\<close> and
  \<open>test_database\<close> only read the store (\<open>find\<close>, \<open>sort\<close>, \<open>list_collection_names\<close>); of
  a request only the store it leaves is kept here.
\<close>

datatype ('k, 'f) request =
    Checkout CheckoutRequest
  | CreateProduct 'k nat "'f Product"
  | UpdateProduct string "'f ProductUpdate"
  | ListProducts "string option" "string option"
  | ListOrders
  | ReadRoot
  | TestDatabase

fun handle :: "('k, 'f) env \<Rightarrow> ('k, 'f) request \<Rightarrow> ('k, 'f) db \<Rightarrow> ('k, 'f) db" where
  "handle env (Checkout payload) s = snd (checkout env payload s)"
| "handle env (CreateProduct new_id now payload) s = snd (create_product new_id now payload s)"
| "handle env (UpdateProduct pid payload) s = snd (update_product env pid payload s)"
| "handle env (ListProducts q c) s = s"
| "handle env ListOrders s = s"
| "handle env ReadRoot s = s"
| "handle env TestDatabase s = s"

fun serve :: "('k, 'f) env \<Rightarrow> ('k, 'f) request list \<Rightarrow> ('k, 'f) db \<Rightarrow> ('k, 'f) db" where
  "serve env [] s = s"
| "serve env (r # rs) s = serve env rs (handle env r s)"

section \<open>Notions used to state the properties\<close>

text \<open>The quantity a cart asks of the product \<open>k\<close>, over all its lines.\<close>

definition requested :: "('k, 'f) env \<Rightarrow> 'k \<Rightarrow> CartItem list \<Rightarrow> int" where
  "requested env k its =
     sum_list (map quantity (filter (\<lambda>i. ObjectId env (product_id i) = Some k) its))"

text \<open>The stock of a document as a number: what \<open>$inc\<close> starts from.\<close>

definition stock_num :: "'f Product \<Rightarrow> int" where
  "stock_num prd = (case stock prd of Val s \<Rightarrow> s | _ \<Rightarrow> 0)"

text \<open>
  The collection after the stock of every product a cart names has gone down by the
  quantity requested and its \<open>in_stock\<close> flag has been set.
\<close>

definition decremented ::
  "('k, 'f) env \<Rightarrow> CartItem list \<Rightarrow> ('k \<rightharpoonup> 'f Product) \<Rightarrow> ('k \<rightharpoonup> 'f Product)" where
  "decremented env its ps k =
     (case ps k of
        None \<Rightarrow> None
      | Some prd \<Rightarrow>
          if Some k \<in> set (map (\<lambda>i. ObjectId env (product_id i)) its)
          then Some (prd\<lparr>stock := Val (stock_num prd - requested env k its),
                          in_stock := Val True\<rparr>)
          else Some prd)"

text \<open>A cart line the second loop can process: its id parses and the stock is not null.\<close>

definition commit_ready :: "('k, 'f) env \<Rightarrow> ('k \<rightharpoonup> 'f Product) \<Rightarrow> CartItem \<Rightarrow> bool" where
  "commit_ready env ps i \<longleftrightarrow>
     (case ObjectId env (product_id i) of
        None \<Rightarrow> False
      | Some oid \<Rightarrow> (case ps oid of None \<Rightarrow> True | Some prd \<Rightarrow> stock prd \<noteq> Null))"

section \<open>An instance to run the model on\<close>

text \<open>
  ObjectIds as their 24 hexadecimal digits in lower case, and exact rational arithmetic
  for the floats. On the values used below (halves and small integers, which binary
  floating point represents exactly, as it does their sums and products) it computes what
  Python computes. An int converts to a float when, rounded to the nearest double, it stays
  below \<open>2 ^ 1024\<close>; otherwise float times int raises \<open>OverflowError\<close>.
\<close>

definition int_fits_float :: "int \<Rightarrow> bool" where
  "int_fits_float n \<longleftrightarrow> \<bar>n\<bar> < 2 ^ 1024 - 2 ^ 970"

definition hex_lower :: "char \<Rightarrow> char option" where
  "hex_lower c = map_of (zip ''0123456789abcdefABCDEF'' ''0123456789abcdefabcdef'') c"

definition hex_ObjectId :: "string \<Rightarrow> string option" where
  "hex_ObjectId s = (if length s = 24 then those (map hex_lower s) else None)"

definition rat_round2 :: "rat \<Rightarrow> rat" where
  "rat_round2 x =
     (let y = x * 100; n = \<lfloor>y\<rfloor>; d = y - of_int n in
      of_int (if d < 1 / 2 then n else if 1 / 2 < d then n + 1
              else if even n then n else n + 1) / 100)"

definition exact_env :: "(string, rat) env" where
  "exact_env = \<lparr>ObjectId = hex_ObjectId, oid_str = (\<lambda>k. k), fzero = 0, fadd = (+),
     fmul_int = (\<lambda>x n. if int_fits_float n then Some (x * of_int n) else None),
     round2 = rat_round2, fge0 = (\<lambda>x. 0 \<le> x)\<rparr>"

definition widget_id :: string where
  "widget_id = ''64b7f0c2a1d3e4f5a6b7c8d9''"

definition widget :: "rat Product" where
  "widget = \<lparr>title = Val ''Widget'', description = Null, price = Val (5 / 2),
     category = Val ''tools'', stock = Val 5, image_url = Null, in_stock = Val True,
     created_at = Val 100, updated_at = Val 100\<rparr>"

definition shop :: "(string, rat) db" where
  "shop = \<lparr>product_coll = [widget_id \<mapsto> widget], order_coll = []\<rparr>"

definition gadget_id :: string where
  "gadget_id = ''64b7f0c2a1d3e4f5a6b7c8da''"

definition gadget :: "rat Product" where
  "gadget = \<lparr>title = Val ''Gadget'', description = Null, price = Val 4,
     category = Val ''toys'', stock = Val 3, image_url = Null, in_stock = Val True,
     created_at = Val 200, updated_at = Val 200\<rparr>"

definition market :: "(string, rat) db" where
  "market = \<lparr>product_coll = [widget_id \<mapsto> widget, gadget_id \<mapsto> gadget], order_coll = []\<rparr>"


definition line :: "string \<Rightarrow> int \<Rightarrow> CartItem" where
  "line p q = \<lparr>product_id = p, quantity = q\<rparr>"

definition cart :: "CartItem list \<Rightarrow> CheckoutRequest" where
  "cart ls = \<lparr>items = ls, buyer_name = None, buyer_email = None\<rparr>"

definition set_title :: "string \<Rightarrow> rat ProductUpdate" where
  "set_title t = \<lparr>upd_title = Val t, upd_description = Absent, upd_price = Absent,
     upd_category = Absent, upd_stock = Absent, upd_image_url = Absent,
     upd_in_stock = Absent\<rparr>"

section \<open>The two loops of checkout\<close>

lemma checkout_line_Inr:
  assumes "checkout_line env ps item = Inr (sub, oi)"
  shows "\<exists>oid prd st. ObjectId env (product_id item) = Some oid \<and> ps oid = Some prd \<and>
           stock prd = Val st \<and> quantity item \<le> st \<and> 1 \<le> quantity item \<and>
           dict_get (price prd) (fzero env) = Some (item_price oi) \<and>
           title prd = Val (item_title oi) \<and>
           item_product_id oi = oid_str env oid \<and>
           item_quantity oi = quantity item \<and>
           fmul_int env (item_price oi) (quantity item) = Some sub \<and> item_subtotal oi = sub \<and>
           fge0 env (item_price oi) \<and> fge0 env sub"
  using assms
  unfolding checkout_line_def new_OrderItem_def
  by (cases "stock (the (ps (the (ObjectId env (product_id item)))))")
     (auto split: option.splits if_splits field.splits sum.splits)

lemma checkout_validate_acc:
  assumes "checkout_validate env ps its acc tot = Inr (ois, t)"
  shows "\<exists>new. ois = acc @ new \<and>
           t = foldl (fadd env) tot (map item_subtotal new) \<and>
           list_all2 (\<lambda>ci oi. checkout_line env ps ci = Inr (item_subtotal oi, oi)) its new"
  using assms
proof (induction its arbitrary: acc tot)
  case Nil
  then show ?case by simp
next
  case (Cons item rest)
  from Cons.prems obtain sub oi where l: "checkout_line env ps item = Inr (sub, oi)"
    and r: "checkout_validate env ps rest (acc @ [oi]) (fadd env tot sub) = Inr (ois, t)"
    by (auto split: sum.splits)
  from checkout_line_Inr[OF l] have s: "item_subtotal oi = sub" by blast
  from Cons.IH[OF r] obtain new where n: "ois = (acc @ [oi]) @ new"
     "t = foldl (fadd env) (fadd env tot sub) (map item_subtotal new)"
     "list_all2 (\<lambda>ci oi. checkout_line env ps ci = Inr (item_subtotal oi, oi)) rest new" by blast
  show ?case
    by (rule exI[of _ "oi # new"]) (use n l s in simp)
qed

lemma checkout_validate_Inl:
  assumes "item \<in> set its" and "checkout_line env ps item = Inl e"
  shows "\<exists>e'. checkout_validate env ps its acc tot = Inl e'"
  using assms
  by (induction its arbitrary: acc tot) (auto split: sum.splits)

lemma checkout_validate_first:
  assumes "\<forall>i\<in>set pre. \<exists>r. checkout_line env ps i = Inr r"
    and "checkout_line env ps item = Inl e"
  shows "checkout_validate env ps (pre @ item # post) acc tot = Inl e"
  using assms
  by (induction pre arbitrary: acc tot) (auto split: sum.splits)

lemma update_one_inc_ready:
  assumes "commit_ready env ps item" and "ObjectId env (product_id item) = Some oid"
  shows "update_one_inc oid (quantity item) ps = Inr (decremented env [item] ps)"
  using assms
  unfolding update_one_inc_def commit_ready_def
  by (auto simp: fun_eq_iff decremented_def requested_def stock_num_def
           split: option.splits field.splits)

lemma commit_ready_decremented:
  "commit_ready env ps i \<Longrightarrow> commit_ready env (decremented env its ps) i"
  unfolding commit_ready_def decremented_def
  by (auto split: option.splits)

lemma requested_notin:
  "Some k \<notin> set (map (\<lambda>i. ObjectId env (product_id i)) its) \<Longrightarrow> requested env k its = 0"
  unfolding requested_def by (induction its) auto

lemma requested_Nil: "requested env k [] = 0"
  unfolding requested_def by simp

lemma requested_Cons:
  "requested env k (item # rest) =
     (if ObjectId env (product_id item) = Some k then quantity item else 0) + requested env k rest"
  unfolding requested_def by simp

lemma decremented_Cons:
  "decremented env rest (decremented env [item] ps) = decremented env (item # rest) ps"
proof
  fix k
  show "decremented env rest (decremented env [item] ps) k = decremented env (item # rest) ps k"
  proof (cases "ps k")
    case None
    then show ?thesis by (simp add: decremented_def)
  next
    case (Some prd)
    show ?thesis
    proof (cases "Some k \<in> set (map (\<lambda>i. ObjectId env (product_id i)) rest)")
      case True
      with Some show ?thesis
        by (auto simp: decremented_def requested_Cons requested_Nil stock_num_def)
    next
      case False
      with Some requested_notin[OF False] show ?thesis
        by (auto simp: decremented_def requested_Cons requested_Nil stock_num_def)
    qed
  qed
qed

lemma checkout_commit_ready:
  assumes "\<forall>i\<in>set its. commit_ready env ps i"
  shows "checkout_commit env its ps = (None, decremented env its ps)"
  using assms
proof (induction its arbitrary: ps)
  case Nil
  show ?case by (simp add: decremented_def fun_eq_iff split: option.splits)
next
  case (Cons item rest)
  from Cons.prems obtain oid where o: "ObjectId env (product_id item) = Some oid"
    by (auto simp: commit_ready_def split: option.splits)
  have u: "update_one_inc oid (quantity item) ps = Inr (decremented env [item] ps)"
    using Cons.prems o by (simp add: update_one_inc_ready)
  have "\<forall>i\<in>set rest. commit_ready env (decremented env [item] ps) i"
    using Cons.prems by (simp add: commit_ready_decremented)
  from Cons.IH[OF this] show ?case
    using o u by (simp add: decremented_Cons)
qed

lemma checkout_line_ready:
  "checkout_line env ps i = Inr r \<Longrightarrow> commit_ready env ps i"
  by (cases r) (auto dest!: checkout_line_Inr simp: commit_ready_def)

lemma checkout_validate_lines:
  "checkout_validate env ps its acc tot = Inr r \<Longrightarrow> i \<in> set its \<Longrightarrow>
     \<exists>r'. checkout_line env ps i = Inr r'"
  by (induction its arbitrary: acc tot) (auto split: sum.splits)

lemma checkout_validate_ready:
  assumes "checkout_validate env ps its acc tot = Inr r"
  shows "\<forall>i\<in>set its. commit_ready env ps i"
  using checkout_validate_lines[OF assms] checkout_line_ready by blast

section \<open>Checkout as a whole\<close>

lemma checkout_success:
  assumes v: "checkout_validate env (product_coll s) (items payload) [] (fzero env) = Inr (ois, tot)"
    and t: "fge0 env (round2 env tot)"
  shows "checkout env payload s =
           (Inr (length (order_coll s), round2 env tot),
            s\<lparr>product_coll := decremented env (items payload) (product_coll s),
              order_coll := order_coll s @
                [\<lparr>o_buyer_name = buyer_name payload, o_buyer_email = buyer_email payload,
                  o_items = ois, o_total = round2 env tot, o_status = ''paid''\<rparr>]\<rparr>)"
proof -
  have "checkout_commit env (items payload) (product_coll s) =
          (None, decremented env (items payload) (product_coll s))"
    using checkout_validate_ready[OF v] by (rule checkout_commit_ready)
  then show ?thesis
    using v t by (simp add: checkout_def new_Order_def create_document_def)
qed

lemma checkout_failure:
  assumes "checkout_validate env (product_coll s) (items payload) [] (fzero env) = Inl e"
  shows "checkout env payload s = (Inl e, s)"
  using assms by (simp add: checkout_def)

lemma checkout_Inr:
  assumes "checkout env payload s = (Inr (order_id, t), s')"
  shows "\<exists>ois tot. checkout_validate env (product_coll s) (items payload) [] (fzero env) = Inr (ois, tot)
           \<and> fge0 env (round2 env tot)"
  using assms
  by (auto simp: checkout_def new_Order_def split: sum.splits prod.splits option.splits if_splits)

lemma widget_parses: "ObjectId exact_env widget_id = Some widget_id"
  by (simp add: exact_env_def hex_ObjectId_def widget_id_def hex_lower_def)

lemma small_fits_float: "\<bar>n\<bar> \<le> 5 \<Longrightarrow> int_fits_float n"
  by (simp add: int_fits_float_def)

lemma exact_fmul_small: "\<bar>n\<bar> \<le> 5 \<Longrightarrow> fmul_int exact_env x n = Some (x * of_int n)"
  by (simp add: exact_env_def small_fits_float)

lemma widget_line:
  "1 \<le> q \<Longrightarrow> q \<le> 5 \<Longrightarrow>
   checkout_line exact_env (product_coll shop) (line widget_id q) =
     Inr (5 / 2 * of_int q,
          \<lparr>item_product_id = widget_id, item_title = ''Widget'', item_price = 5 / 2,
            item_quantity = q, item_subtotal = 5 / 2 * of_int q\<rparr>)"
  by (simp add: checkout_line_def line_def widget_parses shop_def widget_def new_OrderItem_def
        exact_fmul_small)
     (simp add: exact_env_def)

lemma exact_round2_int: "round2 exact_env (of_int n) = of_int n"
  by (simp add: exact_env_def rat_round2_def Let_def)

lemma checkout_validate_accepted:
  assumes "list_all2 (\<lambda>ci oi. checkout_line env ps ci = Inr (item_subtotal oi, oi)) its new"
  shows "checkout_validate env ps its acc tot =
           Inr (acc @ new, foldl (fadd env) tot (map item_subtotal new))"
  using assms
  by (induction arbitrary: acc tot rule: list_all2_induct) auto

lemma accepted_lines_items:
  assumes "\<forall>ci\<in>set its. \<exists>r. checkout_line env ps ci = Inr r"
  shows "\<exists>ois. list_all2 (\<lambda>ci oi. checkout_line env ps ci = Inr (item_subtotal oi, oi)) its ois"
  using assms
proof (induction its)
  case Nil
  show ?case by simp
next
  case (Cons ci rest)
  from Cons.prems obtain sub oi where l: "checkout_line env ps ci = Inr (sub, oi)" by force
  from checkout_line_Inr[OF l] have "item_subtotal oi = sub" by blast
  with l have h: "checkout_line env ps ci = Inr (item_subtotal oi, oi)" by simp
  from Cons obtain ois where
    "list_all2 (\<lambda>ci oi. checkout_line env ps ci = Inr (item_subtotal oi, oi)) rest ois"
    by auto
  with h have
    "list_all2 (\<lambda>ci oi. checkout_line env ps ci = Inr (item_subtotal oi, oi)) (ci # rest) (oi # ois)"
    by simp
  then show ?case ..
qed

lemma fge0_foldl:
  assumes "\<forall>a b. fge0 env a \<and> fge0 env b \<longrightarrow> fge0 env (fadd env a b)"
    and "fge0 env tot" and "\<forall>x\<in>set xs. fge0 env x"
  shows "fge0 env (foldl (fadd env) tot xs)"
  using assms(2,3)
  by (induction xs arbitrary: tot) (use assms(1) in auto)

section \<open>The claims\<close>

text \<open>
  C1. When every line of the cart is accepted by the first loop, checkout returns, and the
  total it returns is the total stored in the one order it created: \<open>round(., 2)\<close> of the sum,
  taken from \<open>0.0\<close> in cart order, of the subtotals of the order's items. The items follow the
  cart line by line, each with the line's quantity, the price read from the product at that
  moment, and the subtotal price times quantity. (For floats, as in Python, where \<open>0.0 >= 0\<close>
  and where sums and roundings of values \<open>>= 0\<close> are \<open>>= 0\<close>.)
\<close>

theorem checkout_total:
  assumes lines: "\<forall>ci\<in>set (items payload). \<exists>r. checkout_line env (product_coll s) ci = Inr r"
    and zero: "fge0 env (fzero env)"
    and add: "\<forall>a b. fge0 env a \<and> fge0 env b \<longrightarrow> fge0 env (fadd env a b)"
    and rnd: "\<forall>a. fge0 env a \<longrightarrow> fge0 env (round2 env a)"
  shows "\<exists>ois s'.
           checkout env payload s =
             (Inr (length (order_coll s),
                   round2 env (foldl (fadd env) (fzero env) (map item_subtotal ois))), s') \<and>
           order_coll s' = order_coll s @
             [\<lparr>o_buyer_name = buyer_name payload, o_buyer_email = buyer_email payload,
               o_items = ois,
               o_total = round2 env (foldl (fadd env) (fzero env) (map item_subtotal ois)),
               o_status = ''paid''\<rparr>] \<and>
           list_all2 (\<lambda>ci oi.
               fmul_int env (item_price oi) (item_quantity oi) = Some (item_subtotal oi) \<and>
               item_quantity oi = quantity ci \<and>
               (\<exists>oid prd. ObjectId env (product_id ci) = Some oid \<and>
                  product_coll s oid = Some prd \<and>
                  dict_get (price prd) (fzero env) = Some (item_price oi)))
             (items payload) ois"
proof -
  from accepted_lines_items[OF lines] obtain ois where
    la: "list_all2 (\<lambda>ci oi. checkout_line env (product_coll s) ci = Inr (item_subtotal oi, oi))
           (items payload) ois" ..
  have snap: "list_all2 (\<lambda>ci oi.
               (fmul_int env (item_price oi) (item_quantity oi) = Some (item_subtotal oi) \<and>
                item_quantity oi = quantity ci \<and>
                (\<exists>oid prd. ObjectId env (product_id ci) = Some oid \<and>
                   product_coll s oid = Some prd \<and>
                   dict_get (price prd) (fzero env) = Some (item_price oi))) \<and>
               fge0 env (item_subtotal oi))
             (items payload) ois"
    using la
  proof (rule list_all2_mono)
    fix ci oi
    assume "checkout_line env (product_coll s) ci = Inr (item_subtotal oi, oi)"
    from checkout_line_Inr[OF this]
    show "(fmul_int env (item_price oi) (item_quantity oi) = Some (item_subtotal oi) \<and>
           item_quantity oi = quantity ci \<and>
           (\<exists>oid prd. ObjectId env (product_id ci) = Some oid \<and>
              product_coll s oid = Some prd \<and>
              dict_get (price prd) (fzero env) = Some (item_price oi))) \<and>
          fge0 env (item_subtotal oi)"
      by auto
  qed
  have "\<forall>x\<in>set (map item_subtotal ois). fge0 env x"
    using snap by (auto simp: list_all2_conv_all_nth in_set_conv_nth)
  from fge0_foldl[OF add zero this] rnd
  have g: "fge0 env (round2 env (foldl (fadd env) (fzero env) (map item_subtotal ois)))"
    by blast
  have v: "checkout_validate env (product_coll s) (items payload) [] (fzero env) =
             Inr (ois, foldl (fadd env) (fzero env) (map item_subtotal ois))"
    using checkout_validate_accepted[OF la, of "[]" "fzero env"] by simp
  from snap have snap': "list_all2 (\<lambda>ci oi.
               fmul_int env (item_price oi) (item_quantity oi) = Some (item_subtotal oi) \<and>
               item_quantity oi = quantity ci \<and>
               (\<exists>oid prd. ObjectId env (product_id ci) = Some oid \<and>
                  product_coll s oid = Some prd \<and>
                  dict_get (price prd) (fzero env) = Some (item_price oi)))
             (items payload) ois"
    by (rule list_all2_mono) blast
  from checkout_success[OF v g] snap' show ?thesis by auto
qed

lemma exact_round2_nonneg: "0 \<le> a \<Longrightarrow> 0 \<le> rat_round2 a"
  by (simp add: rat_round2_def Let_def)

lemma gadget_parses: "ObjectId exact_env gadget_id = Some gadget_id"
  by (simp add: exact_env_def hex_ObjectId_def gadget_id_def hex_lower_def)

lemma market_widget: "product_coll market widget_id = Some widget"
  by (simp add: market_def widget_id_def gadget_id_def)

lemma market_gadget: "product_coll market gadget_id = Some gadget"
  by (simp add: market_def)

theorem checkout_total_witness:
  "\<exists>s'. checkout exact_env (cart [line widget_id 1, line gadget_id 2]) market =
           (Inr (0, 21 / 2), s') \<and>
         map o_total (order_coll s') = [21 / 2] \<and>
         map (map item_subtotal \<circ> o_items) (order_coll s') = [[5 / 2, 8]] \<and>
         map (map item_price \<circ> o_items) (order_coll s') = [[5 / 2, 4]] \<and>
         map (map item_quantity \<circ> o_items) (order_coll s') = [[1, 2]]"
proof -
  have l1: "checkout_line exact_env (product_coll market) (line widget_id 1) =
      Inr (5 / 2, \<lparr>item_product_id = widget_id, item_title = ''Widget'', item_price = 5 / 2,
                    item_quantity = 1, item_subtotal = 5 / 2\<rparr>)"
    by (simp add: checkout_line_def line_def widget_parses market_widget widget_def
          new_OrderItem_def exact_fmul_small)
       (simp add: exact_env_def)
  have l2: "checkout_line exact_env (product_coll market) (line gadget_id 2) =
      Inr (8, \<lparr>item_product_id = gadget_id, item_title = ''Gadget'', item_price = 4,
                item_quantity = 2, item_subtotal = 8\<rparr>)"
    by (simp add: checkout_line_def line_def gadget_parses market_gadget gadget_def
          new_OrderItem_def exact_fmul_small)
       (simp add: exact_env_def)
  have e1: "\<exists>r. checkout_line exact_env (product_coll market) (line widget_id 1) = Inr r"
    by (rule exI, rule l1)
  have e2: "\<exists>r. checkout_line exact_env (product_coll market) (line gadget_id 2) = Inr r"
    by (rule exI, rule l2)
  have lines: "\<forall>ci\<in>set (items (cart [line widget_id 1, line gadget_id 2])).
                 \<exists>r. checkout_line exact_env (product_coll market) ci = Inr r"
    using e1 e2 by (simp add: cart_def)
  have zero: "fge0 exact_env (fzero exact_env)"
    by (simp add: exact_env_def)
  have add: "\<forall>a b. fge0 exact_env a \<and> fge0 exact_env b \<longrightarrow> fge0 exact_env (fadd exact_env a b)"
    by (simp add: exact_env_def)
  have rnd: "\<forall>a. fge0 exact_env a \<longrightarrow> fge0 exact_env (round2 exact_env a)"
    by (simp add: exact_env_def exact_round2_nonneg)
  from checkout_total[OF lines zero add rnd] obtain ois s' where
    c: "checkout exact_env (cart [line widget_id 1, line gadget_id 2]) market =
          (Inr (length (order_coll market),
                round2 exact_env (foldl (fadd exact_env) (fzero exact_env)
                   (map item_subtotal ois))), s')"
    and o: "order_coll s' = order_coll market @
             [\<lparr>o_buyer_name = buyer_name (cart [line widget_id 1, line gadget_id 2]),
               o_buyer_email = buyer_email (cart [line widget_id 1, line gadget_id 2]),
               o_items = ois,
               o_total = round2 exact_env (foldl (fadd exact_env) (fzero exact_env)
                   (map item_subtotal ois)),
               o_status = ''paid''\<rparr>]"
    and r: "list_all2 (\<lambda>ci oi.
               fmul_int exact_env (item_price oi) (item_quantity oi) = Some (item_subtotal oi) \<and>
               item_quantity oi = quantity ci \<and>
               (\<exists>oid prd. ObjectId exact_env (product_id ci) = Some oid \<and>
                  product_coll market oid = Some prd \<and>
                  dict_get (price prd) (fzero exact_env) = Some (item_price oi)))
             (items (cart [line widget_id 1, line gadget_id 2])) ois"
    by blast
  from r obtain a b where ab: "ois = [a, b]"
    and a: "fmul_int exact_env (item_price a) (item_quantity a) = Some (item_subtotal a)"
      "item_quantity a = 1"
      "\<exists>prd. product_coll market widget_id = Some prd \<and>
             dict_get (price prd) (fzero exact_env) = Some (item_price a)"
    and b: "fmul_int exact_env (item_price b) (item_quantity b) = Some (item_subtotal b)"
      "item_quantity b = 2"
      "\<exists>prd. product_coll market gadget_id = Some prd \<and>
             dict_get (price prd) (fzero exact_env) = Some (item_price b)"
    by (auto simp: cart_def line_def list_all2_Cons1 widget_parses gadget_parses)
  from a(3) have pa: "item_price a = 5 / 2"
    by (auto simp: market_widget widget_def)
  from b(3) have pb: "item_price b = 4"
    by (auto simp: market_gadget gadget_def)
  from a(1) pa a(2) have sa: "item_subtotal a = 5 / 2"
    by (simp add: exact_fmul_small)
  from b(1) pb b(2) have sb: "item_subtotal b = 8"
    by (simp add: exact_fmul_small)
  have t: "round2 exact_env (foldl (fadd exact_env) (fzero exact_env) (map item_subtotal ois))
             = 21 / 2"
    by (simp add: ab sa sb exact_env_def rat_round2_def Let_def)
  have e: "order_coll market = []"
    by (simp add: market_def)
  from c o show ?thesis
    unfolding t e by (simp add: ab sa sb pa pb a(2) b(2))
qed

text \<open>
  C2. If a line of the cart fails in the first loop (with the \<open>HTTPException\<close> for a malformed
  id, an unknown product or insufficient stock, or any other exception), checkout ends with
  an error and leaves the store exactly as it was: no stock changed, no order inserted.
\<close>

theorem checkout_abort_no_side_effects:
  assumes "item \<in> set (items payload)"
    and "checkout_line env (product_coll s) item = Inl e"
  shows "\<exists>e'. checkout env payload s = (Inl e', s)"
proof -
  from checkout_validate_Inl[OF assms] obtain e' where
    "checkout_validate env (product_coll s) (items payload) [] (fzero env) = Inl e'"
    by blast
  then have "checkout env payload s = (Inl e', s)" by (rule checkout_failure)
  then show ?thesis ..
qed

lemma widget_line_short:
  "5 < q \<Longrightarrow>
   checkout_line exact_env (product_coll shop) (line widget_id q) =
     Inl (HTTPException 400 ''Insufficient stock for Widget'')"
  by (simp add: checkout_line_def line_def widget_parses shop_def widget_def)

theorem checkout_abort_no_side_effects_witness:
  "line widget_id 6 \<in> set (items (cart [line widget_id 1, line widget_id 6])) \<and>
   checkout_line exact_env (product_coll shop) (line widget_id 6) =
     Inl (HTTPException 400 ''Insufficient stock for Widget'') \<and>
   (\<exists>e'. checkout exact_env (cart [line widget_id 1, line widget_id 6]) shop = (Inl e', shop))"
proof -
  have m: "line widget_id 6 \<in> set (items (cart [line widget_id 1, line widget_id 6]))"
    by (simp add: cart_def)
  have l: "checkout_line exact_env (product_coll shop) (line widget_id 6) =
     Inl (HTTPException 400 ''Insufficient stock for Widget'')"
    by (simp add: widget_line_short)
  from checkout_abort_no_side_effects[OF m l] m l show ?thesis by blast
qed

text \<open>
  C4. The lines are checked in cart order and the first line that fails decides the error:
  with every earlier line accepted, a line whose id does not parse ends checkout with
  status 400 and detail \<open>Invalid product id: <id>\<close>; one whose id parses and names no product,
  with 404 and \<open>Product not found: <id>\<close>; one whose product has less stock than the
  quantity asked, with 400 and \<open>Insufficient stock for <title>\<close>. The store is unchanged.
\<close>

theorem checkout_first_failure:
  assumes "items payload = pre @ item # post"
    and "\<forall>i\<in>set pre. \<exists>r. checkout_line env (product_coll s) i = Inr r"
  shows "(ObjectId env (product_id item) = None \<longrightarrow>
            checkout env payload s =
              (Inl (HTTPException 400 (''Invalid product id: '' @ product_id item)), s)) \<and>
         (\<forall>oid. ObjectId env (product_id item) = Some oid \<and> product_coll s oid = None \<longrightarrow>
            checkout env payload s =
              (Inl (HTTPException 404 (''Product not found: '' @ product_id item)), s)) \<and>
         (\<forall>oid prd st. ObjectId env (product_id item) = Some oid \<and>
              product_coll s oid = Some prd \<and> dict_get (stock prd) 0 = Some st \<and>
              st < quantity item \<longrightarrow>
            checkout env payload s =
              (Inl (HTTPException 400 (''Insufficient stock for '' @ fmt (title prd))), s)) \<and>
         (\<forall>e. checkout_line env (product_coll s) item = Inl e \<longrightarrow>
            checkout env payload s = (Inl e, s))"
proof -
  have first: "checkout env payload s = (Inl e, s)"
    if "checkout_line env (product_coll s) item = Inl e" for e
    using checkout_validate_first[OF assms(2) that, of post "[]" "fzero env"] assms(1)
    by (simp add: checkout_failure)
  show ?thesis
    by (intro conjI allI impI first) (auto simp: checkout_line_def)
qed

theorem checkout_first_failure_witness:
  "items (cart [line widget_id 1, line ''xyz'' 1, line widget_id 9]) =
     [line widget_id 1] @ line ''xyz'' 1 # [line widget_id 9] \<and>
   checkout_line exact_env (product_coll shop) (line widget_id 1) =
     Inr (5 / 2, \<lparr>item_product_id = widget_id, item_title = ''Widget'', item_price = 5 / 2,
                   item_quantity = 1, item_subtotal = 5 / 2\<rparr>) \<and>
   ObjectId exact_env (product_id (line ''xyz'' 1)) = None \<and>
   checkout exact_env (cart [line widget_id 1, line ''xyz'' 1, line widget_id 9]) shop =
     (Inl (HTTPException 400 ''Invalid product id: xyz''), shop)"
proof -
  have a: "items (cart [line widget_id 1, line ''xyz'' 1, line widget_id 9]) =
     [line widget_id 1] @ line ''xyz'' 1 # [line widget_id 9]"
    by (simp add: cart_def)
  have b: "\<forall>i\<in>set [line widget_id 1]. \<exists>r. checkout_line exact_env (product_coll shop) i = Inr r"
  proof -
    have "\<exists>r. checkout_line exact_env (product_coll shop) (line widget_id 1) = Inr r"
      by (rule exI, rule widget_line) simp_all
    then show ?thesis by simp
  qed
  have c: "ObjectId exact_env (product_id (line ''xyz'' 1)) = None"
    by (simp add: exact_env_def hex_ObjectId_def line_def)
  have l: "checkout_line exact_env (product_coll shop) (line widget_id 1) =
     Inr (5 / 2, \<lparr>item_product_id = widget_id, item_title = ''Widget'', item_price = 5 / 2,
                   item_quantity = 1, item_subtotal = 5 / 2\<rparr>)"
    using widget_line[of 1] by simp
  from checkout_first_failure[OF a b] c a l show ?thesis
    by (simp add: line_def)
qed

lemma validated_stock:
  assumes v: "checkout_validate env ps its acc tot = Inr r"
    and k: "Some k \<in> set (map (\<lambda>i. ObjectId env (product_id i)) its)"
    and p: "ps k = Some prd"
  shows "\<exists>st. stock prd = Val st"
proof -
  from k obtain i where i: "i \<in> set its" "ObjectId env (product_id i) = Some k" by auto
  from checkout_validate_lines[OF v i(1)] obtain sub oi where
    "checkout_line env ps i = Inr (sub, oi)" by force
  from checkout_line_Inr[OF this] i(2) p show ?thesis by auto
qed

text \<open>
  C5. When every line of the cart is accepted (and the rounded total passes the \<open>Order\<close>
  constructor), checkout returns, and in the store it leaves: a product the cart does not
  name is untouched; a product the cart names has its stock lowered by exactly the quantity
  requested of it and \<open>in_stock\<close> set to true, whatever the resulting stock, its other fields
  untouched; and exactly one order was inserted, holding the accumulated items, the rounded
  total and the status \<open>paid\<close>.
\<close>

theorem checkout_commit_effect:
  assumes v: "checkout_validate env (product_coll s) (items payload) [] (fzero env) = Inr (ois, tot)"
    and g: "fge0 env (round2 env tot)"
  shows "\<exists>s'. checkout env payload s = (Inr (length (order_coll s), round2 env tot), s') \<and>
           order_coll s' = order_coll s @
             [\<lparr>o_buyer_name = buyer_name payload, o_buyer_email = buyer_email payload,
               o_items = ois, o_total = round2 env tot, o_status = ''paid''\<rparr>] \<and>
           (\<forall>k. product_coll s k = None \<longrightarrow> product_coll s' k = None) \<and>
           (\<forall>k prd. product_coll s k = Some prd \<and>
                Some k \<notin> set (map (\<lambda>i. ObjectId env (product_id i)) (items payload)) \<longrightarrow>
              product_coll s' k = Some prd) \<and>
           (\<forall>k prd. product_coll s k = Some prd \<and>
                Some k \<in> set (map (\<lambda>i. ObjectId env (product_id i)) (items payload)) \<longrightarrow>
              (\<exists>st. stock prd = Val st \<and>
                 product_coll s' k =
                   Some (prd\<lparr>stock := Val (st - requested env k (items payload)),
                              in_stock := Val True\<rparr>)))"
proof -
  have st: "\<exists>st. stock prd = Val st"
    if "product_coll s k = Some prd"
      and "Some k \<in> set (map (\<lambda>i. ObjectId env (product_id i)) (items payload))" for k prd
    using validated_stock[OF v that(2) that(1)] .
  show ?thesis
    apply (rule exI, rule conjI, rule checkout_success[OF v g])
    apply (simp add: decremented_def)
    apply (intro allI impI)
    subgoal for k prd
      using st[of k prd] by (auto simp: stock_num_def)
    done
qed

theorem checkout_commit_effect_witness:
  "checkout_validate exact_env (product_coll shop) (items (cart [line widget_id 5])) []
       (fzero exact_env) =
     Inr ([\<lparr>item_product_id = widget_id, item_title = ''Widget'', item_price = 5 / 2,
             item_quantity = 5, item_subtotal = 25 / 2\<rparr>], 25 / 2) \<and>
   fge0 exact_env (round2 exact_env (25 / 2)) \<and>
   (\<exists>s'. checkout exact_env (cart [line widget_id 5]) shop = (Inr (0, 25 / 2), s') \<and>
      order_coll s' =
        [\<lparr>o_buyer_name = None, o_buyer_email = None,
          o_items = [\<lparr>item_product_id = widget_id, item_title = ''Widget'',
                       item_price = 5 / 2, item_quantity = 5, item_subtotal = 25 / 2\<rparr>],
          o_total = 25 / 2, o_status = ''paid''\<rparr>] \<and>
      product_coll s' widget_id = Some (widget\<lparr>stock := Val 0, in_stock := Val True\<rparr>))"
proof -
  have v: "checkout_validate exact_env (product_coll shop) (items (cart [line widget_id 5])) []
       (fzero exact_env) =
     Inr ([\<lparr>item_product_id = widget_id, item_title = ''Widget'', item_price = 5 / 2,
             item_quantity = 5, item_subtotal = 25 / 2\<rparr>], 25 / 2)"
    by (simp add: cart_def widget_line) (simp add: exact_env_def)
  have r: "round2 exact_env (25 / 2) = 25 / 2"
    by (simp add: exact_env_def rat_round2_def Let_def)
  have g: "fge0 exact_env (round2 exact_env (25 / 2))"
    unfolding r by (simp add: exact_env_def)
  have q: "requested exact_env widget_id (items (cart [line widget_id 5])) = 5"
    by (simp add: requested_def cart_def line_def widget_parses)
  have m: "Some widget_id \<in>
      set (map (\<lambda>i. ObjectId exact_env (product_id i)) (items (cart [line widget_id 5])))"
    by (simp add: cart_def line_def widget_parses)
  have p: "product_coll shop widget_id = Some widget" "stock widget = Val 5"
    by (simp_all add: shop_def widget_def)
  from checkout_commit_effect[OF v g] obtain s' where
    s': "checkout exact_env (cart [line widget_id 5]) shop =
           (Inr (length (order_coll shop), round2 exact_env (25 / 2)), s')"
      "order_coll s' = order_coll shop @
             [\<lparr>o_buyer_name = buyer_name (cart [line widget_id 5]),
               o_buyer_email = buyer_email (cart [line widget_id 5]),
               o_items = [\<lparr>item_product_id = widget_id, item_title = ''Widget'',
                   item_price = 5 / 2, item_quantity = 5, item_subtotal = 25 / 2\<rparr>],
               o_total = round2 exact_env (25 / 2), o_status = ''paid''\<rparr>]"
      "\<forall>k prd. product_coll shop k = Some prd \<and>
                Some k \<in> set (map (\<lambda>i. ObjectId exact_env (product_id i))
                   (items (cart [line widget_id 5]))) \<longrightarrow>
              (\<exists>st. stock prd = Val st \<and>
                 product_coll s' k =
                   Some (prd\<lparr>stock := Val (st - requested exact_env k
                                 (items (cart [line widget_id 5]))),
                              in_stock := Val True\<rparr>))"
    by blast
  from s'(3)[rule_format, of widget_id widget] p(1) m obtain st where
    "stock widget = Val st"
    "product_coll s' widget_id =
       Some (widget\<lparr>stock := Val (st - requested exact_env widget_id
                       (items (cart [line widget_id 5]))), in_stock := Val True\<rparr>)"
    by blast
  with p(2) q have "product_coll s' widget_id =
      Some (widget\<lparr>stock := Val 0, in_stock := Val True\<rparr>)"
    by simp
  with s'(1,2) r v g show ?thesis
    by (auto simp: shop_def cart_def)
qed

text \<open>
  C9. With an empty cart checkout succeeds: it changes no product and inserts one order
  with no items, total \<open>0.0\<close> and status \<open>paid\<close>, and returns that total (given that
  \<open>round(0.0, 2)\<close> is \<open>0.0\<close> and \<open>0.0 >= 0\<close> holds, as they do in Python).
\<close>

theorem checkout_empty_cart:
  assumes "round2 env (fzero env) = fzero env" and "fge0 env (fzero env)"
  shows "checkout env \<lparr>items = [], buyer_name = bn, buyer_email = be\<rparr> s =
           (Inr (length (order_coll s), fzero env),
            s\<lparr>order_coll := order_coll s @
                [\<lparr>o_buyer_name = bn, o_buyer_email = be, o_items = [],
                  o_total = fzero env, o_status = ''paid''\<rparr>]\<rparr>)"
  using assms by (simp add: checkout_def new_Order_def create_document_def)

theorem checkout_empty_cart_witness:
  "round2 exact_env (fzero exact_env) = fzero exact_env \<and> fge0 exact_env (fzero exact_env) \<and>
   checkout exact_env \<lparr>items = [], buyer_name = None, buyer_email = None\<rparr> shop =
     (Inr (0, 0),
      shop\<lparr>order_coll :=
        [\<lparr>o_buyer_name = None, o_buyer_email = None, o_items = [],
          o_total = 0, o_status = ''paid''\<rparr>]\<rparr>)"
proof -
  have a: "round2 exact_env (fzero exact_env) = fzero exact_env"
    by (simp add: exact_env_def rat_round2_def Let_def)
  have b: "fge0 exact_env (fzero exact_env)"
    by (simp add: exact_env_def)
  have z: "fzero exact_env = 0" "order_coll shop = []"
    by (simp_all add: exact_env_def shop_def)
  from checkout_empty_cart[OF a b, of None None shop] a b show ?thesis
    by (simp add: z)
qed

section \<open>Orders are only ever appended\<close>

lemma checkout_orders:
  "\<exists>new. order_coll (snd (checkout env payload s)) = order_coll s @ new"
  by (auto simp: checkout_def create_document_def split: sum.splits prod.splits option.splits)

lemma update_product_orders:
  "order_coll (snd (update_product env pid u s)) = order_coll s"
  by (auto simp: update_product_def split: option.splits prod.splits)

lemma handle_orders:
  "\<exists>new. order_coll (handle env r s) = order_coll s @ new"
proof (cases r)
  case (Checkout payload)
  then show ?thesis using checkout_orders[of env payload s] by simp
next
  case (CreateProduct new_id now payload)
  then show ?thesis by (simp add: create_product_def)
next
  case (UpdateProduct pid u)
  then show ?thesis by (simp add: update_product_orders)
qed simp_all

text \<open>
  C8. Whatever requests the system serves, the orders already stored stay as they are, in
  place: the collection only grows at its end. In particular \<open>update_product\<close>, which can
  change a product's price or title, leaves the order collection as it is, so the price
  and title copied into an order's items stay what they were at purchase.
\<close>

theorem orders_immutable:
  "(\<exists>new. order_coll (serve env reqs s) = order_coll s @ new) \<and>
   order_coll (snd (update_product env pid u s)) = order_coll s"
proof
  show "\<exists>new. order_coll (serve env reqs s) = order_coll s @ new"
  proof (induction reqs arbitrary: s)
    case Nil
    show ?case by simp
  next
    case (Cons r rs)
    from handle_orders[of env r s] obtain n1 where
      n1: "order_coll (handle env r s) = order_coll s @ n1" ..
    from Cons.IH[of "handle env r s"] obtain n2 where
      "order_coll (serve env rs (handle env r s)) = order_coll (handle env r s) @ n2" ..
    with n1 have "order_coll (serve env (r # rs) s) = order_coll s @ (n1 @ n2)" by simp
    then show ?case ..
  qed
  show "order_coll (snd (update_product env pid u s)) = order_coll s"
    by (rule update_product_orders)
qed

section \<open>Quantities below one\<close>





section \<open>The stock decrement is unconditional\<close>

text \<open>
  C3 fails on the code. A cart naming the widget (stock 5) twice, three units each, passes
  the stock check on both lines and the second loop takes six: the stock ends at \<open>-1\<close>. The
  same happens when two requests for three units are both validated against the store
  before either commits. The update itself has no condition on the stock: on a stock of 2
  it takes 3.
\<close>

theorem stock_goes_negative:
  "fst (checkout exact_env (cart [line widget_id 3, line widget_id 3]) shop) = Inr (0, 15) \<and>
   map_option stock
     (product_coll (snd (checkout exact_env (cart [line widget_id 3, line widget_id 3]) shop))
        widget_id) = Some (Val (- 1)) \<and>
   checkout_validate exact_env (product_coll shop) [line widget_id 3] [] 0 =
     Inr ([\<lparr>item_product_id = widget_id, item_title = ''Widget'', item_price = 5 / 2,
             item_quantity = 3, item_subtotal = 15 / 2\<rparr>], 15 / 2) \<and>
   map_option stock
     (snd (checkout_commit exact_env [line widget_id 3]
        (snd (checkout_commit exact_env [line widget_id 3] (product_coll shop)))) widget_id) =
     Some (Val (- 1)) \<and>
   map_option stock
     (case update_one_inc widget_id 3 [widget_id \<mapsto> widget\<lparr>stock := Val 2\<rparr>] of
        Inl e \<Rightarrow> None | Inr ps \<Rightarrow> ps widget_id) = Some (Val (- 1))"
proof -
  have v1: "checkout_validate exact_env (product_coll shop) [line widget_id 3] [] 0 =
     Inr ([\<lparr>item_product_id = widget_id, item_title = ''Widget'', item_price = 5 / 2,
             item_quantity = 3, item_subtotal = 15 / 2\<rparr>], 15 / 2)"
    by (simp add: widget_line) (simp add: exact_env_def)
  have v2: "checkout_validate exact_env (product_coll shop)
        (items (cart [line widget_id 3, line widget_id 3])) [] (fzero exact_env) =
     Inr ([\<lparr>item_product_id = widget_id, item_title = ''Widget'', item_price = 5 / 2,
             item_quantity = 3, item_subtotal = 15 / 2\<rparr>,
           \<lparr>item_product_id = widget_id, item_title = ''Widget'', item_price = 5 / 2,
             item_quantity = 3, item_subtotal = 15 / 2\<rparr>], 15)"
    by (simp add: cart_def widget_line) (simp add: exact_env_def)
  have r: "round2 exact_env 15 = 15"
    using exact_round2_int[of 15] by simp
  have g: "fge0 exact_env (round2 exact_env 15)"
    unfolding r by (simp add: exact_env_def)
  note c = checkout_success[OF v2 g]
  have d: "map_option stock
             (decremented exact_env [line widget_id 3, line widget_id 3] (product_coll shop)
                widget_id) = Some (Val (- 1))"
    by (simp add: decremented_def requested_def stock_num_def shop_def widget_def line_def
          widget_parses)
  have a: "fst (checkout exact_env (cart [line widget_id 3, line widget_id 3]) shop) =
             Inr (0, 15)"
    by (simp add: c r) (simp add: shop_def)
  have b: "map_option stock
     (product_coll (snd (checkout exact_env (cart [line widget_id 3, line widget_id 3]) shop))
        widget_id) = Some (Val (- 1))"
  proof -
    have i: "items (cart [line widget_id 3, line widget_id 3]) =
               [line widget_id 3, line widget_id 3]"
      by (simp add: cart_def)
    have "product_coll (snd (checkout exact_env (cart [line widget_id 3, line widget_id 3]) shop)) =
            decremented exact_env [line widget_id 3, line widget_id 3] (product_coll shop)"
      unfolding c i by simp
    with d show ?thesis by simp
  qed
  have e: "map_option stock
     (snd (checkout_commit exact_env [line widget_id 3]
        (snd (checkout_commit exact_env [line widget_id 3] (product_coll shop)))) widget_id) =
     Some (Val (- 1))"
    by (simp add: line_def widget_parses update_one_inc_def shop_def widget_def)
  have f: "map_option stock
     (case update_one_inc widget_id 3 [widget_id \<mapsto> widget\<lparr>stock := Val 2\<rparr>] of
        Inl e \<Rightarrow> None | Inr ps \<Rightarrow> ps widget_id) = Some (Val (- 1))"
    by (simp add: update_one_inc_def)
  from a b v1 e f show ?thesis by blast
qed

section \<open>Updating a product\<close>

lemma update_product_invalid_id:
  "ObjectId env pid = None \<Longrightarrow>
   update_product env pid u s = (Inl (HTTPException 400 ''Invalid product id''), s)"
  by (simp add: update_product_def)

lemma update_product_no_fields:
  "ObjectId env pid = Some oid \<Longrightarrow> no_fields u \<Longrightarrow>
   update_product env pid u s = (Inl (HTTPException 400 ''No fields to update''), s)"
  by (simp add: update_product_def)

lemma update_product_missing:
  "ObjectId env pid = Some oid \<Longrightarrow> \<not> no_fields u \<Longrightarrow> product_coll s oid = None \<Longrightarrow>
   update_product env pid u s = (Inl AttributeError, s)"
  by (simp add: update_product_def)

lemma update_product_never_404:
  "fst (update_product env pid u s) \<noteq> Inl (HTTPException 404 d)"
  by (auto simp: update_product_def update_one_set_def split: option.splits)

lemma update_product_error_unchanged:
  "update_product env pid u s = (Inl e, s') \<Longrightarrow> s' = s"
  by (auto simp: update_product_def update_one_set_def split: option.splits if_splits)

lemma update_product_success:
  assumes "update_product env pid u s = (Inr b, s')"
  shows "\<exists>oid prd. ObjectId env pid = Some oid \<and> product_coll s oid = Some prd \<and>
           order_coll s' = order_coll s \<and>
           product_coll s' = (product_coll s)(oid \<mapsto> prd\<lparr>
                 title := set_field (upd_title u) (title prd),
                 description := set_field (upd_description u) (description prd),
                 price := set_field (upd_price u) (price prd),
                 category := set_field (upd_category u) (category prd),
                 stock := set_field (upd_stock u) (stock prd),
                 image_url := set_field (upd_image_url u) (image_url prd),
                 in_stock := set_field (upd_in_stock u) (in_stock prd),
                 updated_at := dict_get_none (updated_at prd)\<rparr>)"
  using assms
  by (auto simp: update_product_def update_one_set_def split: option.splits if_splits)

text \<open>
  C6 fails on the code in its third case. With a well-formed id that names no product (here
  on the shop holding only the widget) \<open>update_product\<close> does not end with status 404: line
  133 calls \<open>.get\<close> on the \<open>None\<close> that \<open>find_one\<close> returned, and the request ends with
  \<open>AttributeError\<close>. The collection is unchanged.
\<close>

theorem update_product_unknown_id:
  "ObjectId exact_env ''0123456789abcdef01234567'' = Some ''0123456789abcdef01234567'' \<and>
   product_coll shop ''0123456789abcdef01234567'' = None \<and>
   update_product exact_env ''0123456789abcdef01234567'' (set_title ''Gadget'') shop =
     (Inl AttributeError, shop)"
proof -
  have a: "ObjectId exact_env ''0123456789abcdef01234567'' = Some ''0123456789abcdef01234567''"
    by (simp add: exact_env_def hex_ObjectId_def hex_lower_def)
  have b: "product_coll shop ''0123456789abcdef01234567'' = None"
    by (simp add: shop_def widget_id_def)
  have c: "\<not> no_fields (set_title ''Gadget'')"
    by (simp add: no_fields_def set_title_def)
  from update_product_missing[OF a c b] a b show ?thesis by simp
qed

text \<open>
  C7 fails on the code in its last part. A successful \<open>update_product\<close> writes back as
  \<open>updated_at\<close> the value it has just read from the stored document: after the title of the
  widget is changed, its \<open>updated_at\<close> is still the 100 it was created with.
\<close>

theorem update_product_keeps_updated_at:
  "fst (update_product exact_env widget_id (set_title ''Gadget'') shop) = Inr True \<and>
   product_coll (snd (update_product exact_env widget_id (set_title ''Gadget'') shop)) widget_id =
     Some (widget\<lparr>title := Val ''Gadget''\<rparr>) \<and>
   updated_at (widget\<lparr>title := Val ''Gadget''\<rparr>) = Val 100"
  by (simp add: update_product_def widget_parses no_fields_def set_title_def shop_def
        update_one_set_def widget_def)

end
